theory Spec2Isabelle
  imports Complex_Main "HOL-Library.FSet" "HOL-Library.Char_ord" "HOL-Library.List_Lexorder"
    "HOL-Library.Product_Lexorder"
begin

section \<open>Timestamps\<close>

text \<open>
  A \<^verbatim>\<open>pd.Timestamp\<close> without time zone is an instant counted in nanoseconds since
  1970-01-01 00:00, held in 64 bits: the instants from \<^verbatim>\<open>pd.Timestamp.min\<close>
  (1677-09-21 00:12:43.145224193) to \<^verbatim>\<open>pd.Timestamp.max\<close> (2262-04-11
  23:47:16.854775807). The model computes on integers and says which of them are
  representable; \<open>previous_business_day\<close> checks it where pandas builds a timestamp
  from a computed instant, the other calendar operations are modelled on the integers
  as they are. \<^verbatim>\<open>normalize()\<close> rounds down to the previous midnight,
  \<^verbatim>\<open>weekday()\<close> is 0 for Monday and 6 for Sunday; day 0 of the epoch was a
  Thursday.
\<close>

type_synonym timestamp = int

definition DAY_NANOS :: int where
  "DAY_NANOS = 86400000000000"

definition TS_MIN :: int where
  "TS_MIN = - 9223372036854775807"

definition TS_MAX :: int where
  "TS_MAX = 9223372036854775807"

definition representable :: "int \<Rightarrow> bool" where
  "representable t \<longleftrightarrow> TS_MIN \<le> t \<and> t \<le> TS_MAX"

definition normalize_ts :: "timestamp \<Rightarrow> timestamp" where
  "normalize_ts t = t - t mod DAY_NANOS"

definition to_day :: "timestamp \<Rightarrow> int" where
  "to_day t = t div DAY_NANOS"

definition time_of_day :: "timestamp \<Rightarrow> int" where
  "time_of_day t = t mod DAY_NANOS"

definition combine :: "int \<Rightarrow> int \<Rightarrow> timestamp" where
  "combine d tod = d * DAY_NANOS + tod"

definition weekday :: "timestamp \<Rightarrow> int" where
  "weekday t = (to_day t + 3) mod 7"

definition today :: "timestamp \<Rightarrow> timestamp" where
  "today now = normalize_ts now"

section \<open>The business-day calendar of numpy and the pandas offset\<close>

text \<open>
  \<^verbatim>\<open>CustomBusinessDay(weekmask="Mon Tue Wed Thu Fri", holidays=self._holidays)\<close> builds a
  \<^verbatim>\<open>np.busdaycalendar\<close>: every holiday is cut to its day (\<^verbatim>\<open>datetime64[D]\<close>), the week
  mask keeps Monday to Friday. numpy counts days since the epoch and takes
  \<^verbatim>\<open>(date - 4) % 7\<close> as the day of the week (Monday is 0).
\<close>

definition busdaycal_holidays :: "timestamp fset \<Rightarrow> int fset" where
  "busdaycal_holidays H = to_day |`| H"

definition day_of_week :: "int \<Rightarrow> int" where
  "day_of_week d = (d - 4) mod 7"

definition np_is_busday :: "int fset \<Rightarrow> int \<Rightarrow> bool" where
  "np_is_busday hs d \<longleftrightarrow> day_of_week d < 5 \<and> d |\<notin>| hs"

text \<open>
  The two rolls of \<^verbatim>\<open>np.busday_offset\<close>: step one day at a time until the day is a
  business day. The holiday set is finite, so a Monday outside it is always reached.
\<close>

function roll_forward :: "int fset \<Rightarrow> int \<Rightarrow> int" where
  "roll_forward hs d = (if np_is_busday hs d then d else roll_forward hs (d + 1))"
  by pat_completeness auto
termination
proof (relation "measure (\<lambda>(hs, d). LEAST k. np_is_busday hs (d + int k))")
  show "wf (measure (\<lambda>(hs, d). LEAST k. np_is_busday hs (d + int k)))"
    by simp
next
  fix hs :: "int fset" and d :: int
  assume nb: "\<not> np_is_busday hs d"
  define e where "e = d + (4 - d) mod 7"
  have "inj (\<lambda>k::nat. e + 7 * int k)"
    by (simp add: inj_on_def)
  then have "infinite (range (\<lambda>k::nat. e + 7 * int k))"
    by (simp add: finite_image_iff)
  then have "\<not> range (\<lambda>k::nat. e + 7 * int k) \<subseteq> fset hs"
    using finite_fset finite_subset by blast
  then obtain k :: nat where k: "e + 7 * int k |\<notin>| hs"
    by auto
  have dow: "day_of_week (e + 7 * int k) = 0"
    unfolding day_of_week_def e_def by presburger
  have "0 \<le> (4 - d) mod 7"
    by simp
  then obtain j :: nat where j: "int j = (4 - d) mod 7 + 7 * int k"
    by (metis nat_0_le add_nonneg_nonneg mult_nonneg_nonneg of_nat_0_le_iff zero_le_numeral)
  have ex: "np_is_busday hs (d + int j)"
    using k dow unfolding np_is_busday_def j e_def by (simp add: add.assoc)
  let ?P = "\<lambda>k. np_is_busday hs (d + int k)"
  have P: "?P (LEAST k. ?P k)"
    using ex by (rule LeastI)
  have "(LEAST k. ?P k) \<noteq> 0"
    using P nb by (metis add.right_neutral of_nat_0)
  then obtain m where m: "(LEAST k. ?P k) = Suc m"
    by (cases "LEAST k. ?P k") auto
  have "np_is_busday hs (d + 1 + int m)"
    using P unfolding m by (simp add: algebra_simps)
  then have "(LEAST k. np_is_busday hs (d + 1 + int k)) \<le> m"
    by (rule Least_le)
  then show "((hs, d + 1), (hs, d)) \<in> measure (\<lambda>(hs, d). LEAST k. np_is_busday hs (d + int k))"
    using m by simp
qed

declare roll_forward.simps [simp del]

function roll_backward :: "int fset \<Rightarrow> int \<Rightarrow> int" where
  "roll_backward hs d = (if np_is_busday hs d then d else roll_backward hs (d - 1))"
  by pat_completeness auto
termination
proof (relation "measure (\<lambda>(hs, d). LEAST k. np_is_busday hs (d - int k))")
  show "wf (measure (\<lambda>(hs, d). LEAST k. np_is_busday hs (d - int k)))"
    by simp
next
  fix hs :: "int fset" and d :: int
  assume nb: "\<not> np_is_busday hs d"
  define e where "e = d - (d - 4) mod 7"
  have "inj (\<lambda>k::nat. e - 7 * int k)"
    by (simp add: inj_on_def)
  then have "infinite (range (\<lambda>k::nat. e - 7 * int k))"
    by (simp add: finite_image_iff)
  then have "\<not> range (\<lambda>k::nat. e - 7 * int k) \<subseteq> fset hs"
    using finite_fset finite_subset by blast
  then obtain k :: nat where k: "e - 7 * int k |\<notin>| hs"
    by auto
  have dow: "day_of_week (e - 7 * int k) = 0"
    unfolding day_of_week_def e_def by presburger
  have "0 \<le> (d - 4) mod 7"
    by simp
  then obtain j :: nat where j: "int j = (d - 4) mod 7 + 7 * int k"
    by (metis nat_0_le add_nonneg_nonneg mult_nonneg_nonneg of_nat_0_le_iff zero_le_numeral)
  have "d - int j = e - 7 * int k"
    unfolding j e_def by simp
  then have ex: "np_is_busday hs (d - int j)"
    using k dow unfolding np_is_busday_def by simp
  let ?P = "\<lambda>k. np_is_busday hs (d - int k)"
  have P: "?P (LEAST k. ?P k)"
    using ex by (rule LeastI)
  have "(LEAST k. ?P k) \<noteq> 0"
    using P nb by (metis diff_zero of_nat_0)
  then obtain m where m: "(LEAST k. ?P k) = Suc m"
    by (cases "LEAST k. ?P k") auto
  have "np_is_busday hs (d - 1 - int m)"
    using P unfolding m by (simp add: algebra_simps)
  then have "(LEAST k. np_is_busday hs (d - 1 - int k)) \<le> m"
    by (rule Least_le)
  then show "((hs, d - 1), (hs, d)) \<in> measure (\<lambda>(hs, d). LEAST k. np_is_busday hs (d - int k))"
    using m by simp
qed

declare roll_backward.simps [simp del]

text \<open>
  \<^verbatim>\<open>np.busday_offset(date, n, roll, busdaycal)\<close>: roll the date onto a business day, then
  walk \<open>n\<close> business days, forward for a positive \<open>n\<close> and backward for a negative one.
\<close>

datatype roll = Forward | Backward

definition next_busday :: "int fset \<Rightarrow> int \<Rightarrow> int" where
  "next_busday hs d = roll_forward hs (d + 1)"

definition prev_busday :: "int fset \<Rightarrow> int \<Rightarrow> int" where
  "prev_busday hs d = roll_backward hs (d - 1)"

definition busday_offset :: "int fset \<Rightarrow> int \<Rightarrow> int \<Rightarrow> roll \<Rightarrow> int" where
  "busday_offset hs d n r =
     (let d0 = (case r of Forward \<Rightarrow> roll_forward hs d | Backward \<Rightarrow> roll_backward hs d)
      in if 0 < n then (next_busday hs ^^ nat n) d0
         else (prev_busday hs ^^ nat (- n)) d0)"

text \<open>
  \<^verbatim>\<open>CustomBusinessDay._apply\<close> for an offset of \<open>n\<close> business days: the roll is
  forward when \<open>n \<le> 0\<close> and backward otherwise, numpy moves the day, and the time of
  day of the input is put back. \<^verbatim>\<open>date - self._custom_bday\<close> applies \<open>n = -1\<close>,
  \<^verbatim>\<open>date + self._custom_bday\<close> applies \<open>n = 1\<close>.
\<close>

definition CustomBusinessDay_apply :: "timestamp fset \<Rightarrow> int \<Rightarrow> timestamp \<Rightarrow> timestamp" where
  "CustomBusinessDay_apply H n t =
     combine (busday_offset (busdaycal_holidays H) (to_day t) n
                (if n \<le> 0 then Forward else Backward))
             (time_of_day t)"

definition is_on_offset :: "timestamp fset \<Rightarrow> timestamp \<Rightarrow> bool" where
  "is_on_offset H t = np_is_busday (busdaycal_holidays H) (to_day t)"

definition rollforward :: "timestamp fset \<Rightarrow> timestamp \<Rightarrow> timestamp" where
  "rollforward H t = (if \<not> is_on_offset H t then CustomBusinessDay_apply H 1 t else t)"

definition rollback :: "timestamp fset \<Rightarrow> timestamp \<Rightarrow> timestamp" where
  "rollback H t = (if \<not> is_on_offset H t then CustomBusinessDay_apply H (- 1) t else t)"

section \<open>Errors\<close>

datatype error =
    AttributeError string
  | KeyError string
  | TypeError
  | ValueError
  | RequestException
  | ParseError
  | OutOfBoundsDatetime
  | ArrowInvalid

text \<open>
  Building a \<^verbatim>\<open>pd.Timestamp\<close> from a computed instant raises when the instant is
  outside the 64-bit range.
\<close>

definition Timestamp_checked :: "int \<Rightarrow> error + timestamp" where
  "Timestamp_checked t = (if representable t then Inr t else Inl OutOfBoundsDatetime)"

section \<open>pd.date\_range with a business-day frequency\<close>

text \<open>
  The generator behind \<^verbatim>\<open>pd.date_range(start, end, freq=offset)\<close>. A start that is not
  on the offset is rolled forward; otherwise an end that is not on it is rolled back.
  When the end then lies before the start, the end becomes the start minus one offset
  and nothing is produced. The loop yields the current date while it is not after the
  end, and raises when the offset does not move the date forward.
\<close>

function gen_loop :: "timestamp fset \<Rightarrow> timestamp \<Rightarrow> timestamp \<Rightarrow> error + timestamp list" where
  "gen_loop H cur stop =
     (if cur \<le> stop then
        (if cur = stop then Inr [cur]
         else if CustomBusinessDay_apply H 1 cur \<le> cur then Inl ValueError
         else (case gen_loop H (CustomBusinessDay_apply H 1 cur) stop of
                 Inl e \<Rightarrow> Inl e
               | Inr xs \<Rightarrow> Inr (cur # xs)))
      else Inr [])"
  by pat_completeness auto
termination
  by (relation "measure (\<lambda>(H, cur, stop). nat (stop - cur))") auto

declare gen_loop.simps [simp del]

definition generate_range :: "timestamp fset \<Rightarrow> timestamp \<Rightarrow> timestamp \<Rightarrow> error + timestamp list" where
  "generate_range H start stop =
     (let start1 = (if \<not> is_on_offset H start then rollforward H start else start);
          stop1 = (if is_on_offset H start \<and> \<not> is_on_offset H stop
                   then rollback H stop else stop);
          stop2 = (if stop1 < start1 then CustomBusinessDay_apply H (- 1) start1 else stop1)
      in gen_loop H start1 stop2)"

section \<open>BRCal\<close>

text \<open>
  The calendar object holds the holiday set, a Python set of timestamps and therefore
  finite. The clock is a parameter: \<open>now\<close> is the value of \<^verbatim>\<open>pd.Timestamp("now")\<close>,
  taken to be the same at every reading within one call.
\<close>

definition day_range :: "timestamp fset \<Rightarrow> timestamp \<Rightarrow> timestamp \<Rightarrow> error + timestamp list" where
  "day_range H start_date end_date =
     generate_range H (normalize_ts start_date) (normalize_ts end_date)"

definition is_business_day :: "timestamp fset \<Rightarrow> timestamp \<Rightarrow> bool" where
  "is_business_day H date \<longleftrightarrow>
     weekday (normalize_ts date) < 5 \<and> normalize_ts date |\<notin>| H"

text \<open>
  \<^verbatim>\<open>day_count\<close> calls \<^verbatim>\<open>self.bday_range\<close>. Looking a range method up by name on
  the calendar object finds \<^verbatim>\<open>day_range\<close>, the only one the class defines; any other
  name is not an attribute of the object and the lookup raises.
\<close>

type_synonym range_method =
  "timestamp fset \<Rightarrow> timestamp \<Rightarrow> timestamp \<Rightarrow> error + timestamp list"

definition BRCal_getattr :: "string \<Rightarrow> error + range_method" where
  "BRCal_getattr name =
     (if name = ''day_range'' then Inr day_range else Inl (AttributeError name))"

definition day_count :: "timestamp fset \<Rightarrow> timestamp \<Rightarrow> timestamp \<Rightarrow> error + int" where
  "day_count H start_date end_date =
     (case BRCal_getattr ''bday_range'' of
        Inl e \<Rightarrow> Inl e
      | Inr bday_range \<Rightarrow>
          (case bday_range H start_date end_date of
             Inl e \<Rightarrow> Inl e
           | Inr bdays \<Rightarrow> Inr (max 0 (int (length bdays) - 1))))"

text \<open>
  \<^verbatim>\<open>previous_business_day\<close> normalizes the date and subtracts one business day; either
  step raises when its result is not a representable timestamp.
\<close>

definition previous_business_day :: "timestamp fset \<Rightarrow> timestamp \<Rightarrow> error + timestamp" where
  "previous_business_day H date =
     (case Timestamp_checked (normalize_ts date) of
        Inl e \<Rightarrow> Inl e
      | Inr d \<Rightarrow> Timestamp_checked (CustomBusinessDay_apply H (- 1) d))"

section \<open>Data frames\<close>

text \<open>
  A frame is its column names and its rows, each row one cell per column. A cell is a
  timestamp, a string, a float, or missing (\<^verbatim>\<open>None\<close>, \<^verbatim>\<open>NaN\<close> and \<^verbatim>\<open>NaT\<close>
  alike). The row index is not modelled: \<^verbatim>\<open>ignore_index=True\<close> and
  \<^verbatim>\<open>reset_index(drop=True)\<close> renumber the rows in their order.
\<close>

datatype cell = NA | Ts timestamp | Str string | Num real

record frame =
  columns :: "string list"
  rows :: "cell list list"

definition DataFrame_nil :: frame where
  "DataFrame_nil = \<lparr>columns = [], rows = []\<rparr>"

definition df_empty :: "frame \<Rightarrow> bool" where
  "df_empty f \<longleftrightarrow> rows f = [] \<or> columns f = []"

definition get_cell :: "string list \<Rightarrow> cell list \<Rightarrow> string \<Rightarrow> cell" where
  "get_cell cols r c = (case map_of (zip cols r) c of Some v \<Rightarrow> v | None \<Rightarrow> NA)"

definition column :: "frame \<Rightarrow> string \<Rightarrow> cell list" where
  "column f c = map (\<lambda>r. get_cell (columns f) r c) (rows f)"

text \<open>
  \<^verbatim>\<open>pd.concat([f, g], ignore_index=True)\<close>: the columns of \<open>f\<close>, then those of \<open>g\<close>
  that \<open>f\<close> lacks; the rows of \<open>f\<close>, then those of \<open>g\<close>, each laid out on the joint
  columns with a missing cell where its frame has no such column.
\<close>

definition reindex :: "string list \<Rightarrow> string list \<Rightarrow> cell list \<Rightarrow> cell list" where
  "reindex old new r = map (get_cell old r) new"

definition concat_frames :: "frame \<Rightarrow> frame \<Rightarrow> frame" where
  "concat_frames f g =
     (let cols = columns f @ filter (\<lambda>c. c \<notin> set (columns f)) (columns g)
      in \<lparr>columns = cols,
          rows = map (reindex (columns f) cols) (rows f)
               @ map (reindex (columns g) cols) (rows g)\<rparr>)"

text \<open>
  \<^verbatim>\<open>drop_duplicates\<close> keeps the first of every group of identical rows (missing cells
  count as equal), and leaves an empty frame as it is.
\<close>

fun keep_first :: "'a list \<Rightarrow> 'a list" where
  "keep_first [] = []"
| "keep_first (x # xs) = x # keep_first (filter (\<lambda>y. y \<noteq> x) xs)"

definition drop_duplicates :: "frame \<Rightarrow> frame" where
  "drop_duplicates f = (if df_empty f then f else f\<lparr>rows := keep_first (rows f)\<rparr>)"

text \<open>
  \<^verbatim>\<open>sort_values(by, ascending=True)\<close>: a missing column is a \<^verbatim>\<open>KeyError\<close>; cells of
  different kinds in the column cannot be compared (\<^verbatim>\<open>TypeError\<close>); otherwise the rows
  go by the column's value, rows with a missing value last. Rows with equal keys keep
  their order here (pandas' default quicksort promises no order among them).
\<close>

fun cell_key :: "cell \<Rightarrow> nat \<times> int \<times> string \<times> real" where
  "cell_key (Ts t) = (0, t, [], 0)"
| "cell_key (Str s) = (1, 0, s, 0)"
| "cell_key (Num x) = (2, 0, [], x)"
| "cell_key NA = (3, 0, [], 0)"

definition comparable :: "cell list \<Rightarrow> bool" where
  "comparable cs \<longleftrightarrow>
     length (remdups (map (\<lambda>c. fst (cell_key c)) (filter (\<lambda>c. c \<noteq> NA) cs))) \<le> 1"

definition sort_values :: "string \<Rightarrow> frame \<Rightarrow> error + frame" where
  "sort_values by f =
     (if by \<notin> set (columns f) then Inl (KeyError by)
      else if \<not> comparable (column f by) then Inl TypeError
      else Inr (f\<lparr>rows := sort_key (\<lambda>r. cell_key (get_cell (columns f) r by)) (rows f)\<rparr>))"

section \<open>AnbimaIRTSScraper\<close>

text \<open>
  The download and the XML parser are the environment: \<open>src date\<close> is either the
  exception that \<^verbatim>\<open>download_xml\<close> or the parsing raised, or the \<^verbatim>\<open>PARAMETRO\<close>
  elements of the document with their numeric attributes already converted. The model
  builds the dictionaries of \<^verbatim>\<open>parse_params\<close> and the frame of \<^verbatim>\<open>scrape\<close> from them.
  \<^verbatim>\<open>pd.DataFrame\<close> of an empty list has no columns.
\<close>

record parametro =
  Grupo :: "string option"
  B1 :: "real option"
  B2 :: "real option"
  B3 :: "real option"
  B4 :: "real option"
  L1 :: "real option"
  L2 :: "real option"

type_synonym source = "timestamp \<Rightarrow> error + parametro list"

definition type_mapping :: "(string \<times> string) list" where
  "type_mapping = [(''PREFIXADOS'', ''pre''), (''IPCA'', ''ipca'')]"

definition renamed_type :: "string option \<Rightarrow> cell" where
  "renamed_type g =
     (case g of None \<Rightarrow> NA
      | Some n \<Rightarrow> (case map_of type_mapping n of Some m \<Rightarrow> Str m | None \<Rightarrow> Str n))"

definition num_cell :: "real option \<Rightarrow> cell" where
  "num_cell v = (case v of None \<Rightarrow> NA | Some x \<Rightarrow> Num x)"

definition param_columns :: "string list" where
  "param_columns = [''date'', ''type'', ''b1'', ''b2'', ''b3'', ''b4'', ''l1'', ''l2'']"

definition param_row :: "timestamp \<Rightarrow> parametro \<Rightarrow> cell list" where
  "param_row date p =
     [Ts date, renamed_type (Grupo p), num_cell (B1 p), num_cell (B2 p), num_cell (B3 p),
      num_cell (B4 p), num_cell (L1 p), num_cell (L2 p)]"

definition DataFrame_of :: "timestamp \<Rightarrow> parametro list \<Rightarrow> frame" where
  "DataFrame_of date ps =
     (if ps = [] then DataFrame_nil
      else \<lparr>columns = param_columns, rows = map (param_row date) ps\<rparr>)"

definition scrape :: "source \<Rightarrow> timestamp \<Rightarrow> error + frame" where
  "scrape src date =
     (case src date of Inl e \<Rightarrow> Inl e | Inr ps \<Rightarrow> Inr (DataFrame_of date ps))"

section \<open>AnbimaIRTSManager\<close>

text \<open>
  The world of one manager: the Feather file, the log, the dates the scraper was called
  with, and the number of calls of \<^verbatim>\<open>to_feather\<close>. The file is absent, holds a table,
  or is left empty by a write that failed: \<^verbatim>\<open>to_feather\<close> opens the file for writing,
  which truncates it, before the frame is converted.
\<close>

datatype feather_file = NoFile | Table frame | Truncated

datatype level = INFO | WARNING | ERROR

datatype message =
    NotBusinessDay timestamp
  | InFuture timestamp
  | TooOld timestamp
  | ExistingLoaded nat
  | NoExistingFile
  | AlreadyPresent timestamp
  | NoDateColumn
  | StartingScrape timestamp
  | ScrapeError error
  | NewData timestamp nat
  | Saved nat

record world =
  feather :: feather_file
  log :: "(level \<times> message) list"
  fetched :: "timestamp list"
  writes :: nat

definition log_msg :: "level \<Rightarrow> message \<Rightarrow> world \<Rightarrow> world" where
  "log_msg l m w = w\<lparr>log := log w @ [(l, m)]\<rparr>"

definition validate_date ::
  "timestamp fset \<Rightarrow> timestamp \<Rightarrow> timestamp \<Rightarrow> world \<Rightarrow> (error + bool) \<times> world" where
  "validate_date H now date w =
     (if \<not> is_business_day H date then (Inr False, log_msg WARNING (NotBusinessDay date) w)
      else if date > today now then (Inr False, log_msg WARNING (InFuture date) w)
      else (case day_range H date (today now) of
              Inl e \<Rightarrow> (Inl e, w)
            | Inr r \<Rightarrow>
                if length r > 5 then (Inr False, log_msg WARNING (TooOld date) w)
                else (Inr True, w)))"

text \<open>
  Loading: a missing file is the empty frame; \<^verbatim>\<open>pd.read_feather\<close> of a file that a
  failed write left empty raises, and nothing in the manager catches it.
\<close>

definition load_existing :: "world \<Rightarrow> (error + frame) \<times> world" where
  "load_existing w =
     (case feather w of
        Table f \<Rightarrow> (Inr f, log_msg INFO (ExistingLoaded (length (rows f))) w)
      | NoFile \<Rightarrow> (Inr DataFrame_nil, log_msg INFO NoExistingFile w)
      | Truncated \<Rightarrow> (Inl ArrowInvalid, w))"

definition already_present :: "frame \<Rightarrow> timestamp \<Rightarrow> bool" where
  "already_present f date \<longleftrightarrow>
     \<not> df_empty f \<and> ''date'' \<in> set (columns f) \<and> Ts date \<in> set (column f ''date'')"

definition merged :: "frame \<Rightarrow> frame \<Rightarrow> frame" where
  "merged existing new_data = drop_duplicates (concat_frames existing new_data)"

text \<open>
  \<^verbatim>\<open>to_feather\<close>: a column whose cells are of different kinds (a string and a float,
  say) cannot be converted to an Arrow column; the call raises after the file was
  truncated. Failures of the file system itself are not modelled.
\<close>

definition storable :: "frame \<Rightarrow> bool" where
  "storable f \<longleftrightarrow> list_all (\<lambda>c. comparable (column f c)) (columns f)"

definition to_feather :: "frame \<Rightarrow> world \<Rightarrow> (error + unit) \<times> world" where
  "to_feather f w =
     (if storable f
      then (Inr (), w\<lparr>feather := Table f, writes := writes w + 1\<rparr>)
      else (Inl ArrowInvalid, w\<lparr>feather := Truncated, writes := writes w + 1\<rparr>))"

definition merge_and_store :: "frame \<Rightarrow> frame \<Rightarrow> world \<Rightarrow> (error + bool) \<times> world" where
  "merge_and_store existing new_data w =
     (case sort_values ''date'' (merged existing new_data) of
        Inl e \<Rightarrow> (Inl e, w)
      | Inr combined \<Rightarrow>
          (case to_feather combined w of
             (Inl e, w1) \<Rightarrow> (Inl e, w1)
           | (Inr u, w1) \<Rightarrow>
               (Inr True, log_msg INFO (Saved (length (rows combined))) w1)))"

definition before_fetch :: "timestamp \<Rightarrow> frame \<Rightarrow> world \<Rightarrow> world" where
  "before_fetch date existing w =
     (let w1 = (if \<not> df_empty existing \<and> ''date'' \<notin> set (columns existing)
                then log_msg WARNING NoDateColumn w else w);
          w2 = log_msg INFO (StartingScrape date) w1
      in w2\<lparr>fetched := fetched w2 @ [date]\<rparr>)"

definition fetch_and_merge ::
  "source \<Rightarrow> timestamp \<Rightarrow> frame \<Rightarrow> world \<Rightarrow> (error + bool) \<times> world" where
  "fetch_and_merge src date existing w =
     (case scrape src date of
        Inl e \<Rightarrow> (Inl e, log_msg ERROR (ScrapeError e) (before_fetch date existing w))
      | Inr new_data \<Rightarrow>
          merge_and_store existing new_data
            (log_msg INFO (NewData date (length (rows new_data)))
               (before_fetch date existing w)))"

definition scrape_and_update ::
  "timestamp fset \<Rightarrow> timestamp \<Rightarrow> source \<Rightarrow> timestamp \<Rightarrow> world \<Rightarrow> (error + bool) \<times> world" where
  "scrape_and_update H now src date w =
     (case validate_date H now date w of
        (Inl e, w1) \<Rightarrow> (Inl e, w1)
      | (Inr False, w1) \<Rightarrow> (Inr False, w1)
      | (Inr True, w1) \<Rightarrow>
          (case load_existing w1 of
             (Inl e, w2) \<Rightarrow> (Inl e, w2)
           | (Inr existing, w2) \<Rightarrow>
               if already_present existing date
               then (Inr False, log_msg INFO (AlreadyPresent date) w2)
               else fetch_and_merge src date existing w2))"

text \<open>
  What the claims speak of: the frame the manager starts from, whether a run reaches the
  call of the scraper, the \<^verbatim>\<open>date\<close> cell of a row, and the order the sort puts
  date cells in (timestamps ascending, missing last).
\<close>

definition existing_frame :: "world \<Rightarrow> frame" where
  "existing_frame w = (case feather w of Table f \<Rightarrow> f | NoFile \<Rightarrow> DataFrame_nil
     | Truncated \<Rightarrow> DataFrame_nil)"

definition fetch_reached :: "timestamp fset \<Rightarrow> timestamp \<Rightarrow> timestamp \<Rightarrow> world \<Rightarrow> bool" where
  "fetch_reached H now date w \<longleftrightarrow>
     fst (validate_date H now date w) = Inr True \<and> feather w \<noteq> Truncated \<and>
     \<not> already_present (existing_frame w) date"

definition date_cell :: "frame \<Rightarrow> cell list \<Rightarrow> cell" where
  "date_cell f r = get_cell (columns f) r ''date''"

definition date_le :: "cell \<Rightarrow> cell \<Rightarrow> bool" where
  "date_le c d \<longleftrightarrow> cell_key c \<le> cell_key d"

section \<open>Concrete inputs\<close>

text \<open>
  Monday 2024-01-15 is day 19737 of the epoch; the Monday before is day 19730, the
  Friday before that day 19727. No holiday falls in between in these examples.
\<close>

definition monday :: timestamp where
  "monday = combine 19737 0"

definition monday_9am :: timestamp where
  "monday_9am = combine 19737 32400000000000"

definition monday_10am :: timestamp where
  "monday_10am = combine 19737 36000000000000"

definition saturday :: timestamp where
  "saturday = combine 19735 0"

definition friday :: timestamp where
  "friday = combine 19734 0"

definition monday_before :: timestamp where
  "monday_before = combine 19730 0"

definition friday_before :: timestamp where
  "friday_before = combine 19727 0"


definition empty_world :: world where
  "empty_world = \<lparr>feather = NoFile, log = [], fetched = [], writes = 0\<rparr>"

definition no_params :: source where
  "no_params d = Inr []"

definition failing_source :: source where
  "failing_source d = Inl RequestException"

definition two_params :: source where
  "two_params d =
     Inr [\<lparr>Grupo = Some ''PREFIXADOS'', B1 = Some 1, B2 = None, B3 = None, B4 = None,
            L1 = None, L2 = None\<rparr>,
          \<lparr>Grupo = Some ''IPCA'', B1 = Some 2, B2 = None, B3 = None, B4 = None,
            L1 = None, L2 = None\<rparr>]"

definition stored_monday :: frame where
  "stored_monday =
     \<lparr>columns = param_columns,
      rows = [[Ts monday, Str ''pre'', Num 1, NA, NA, NA, NA, NA]]\<rparr>"

definition world_with_monday :: world where
  "world_with_monday = \<lparr>feather = Table stored_monday, log = [], fetched = [], writes = 1\<rparr>"


text \<open>A stored table whose \<open>type\<close> column holds a float.\<close>

definition stored_float_type :: frame where
  "stored_float_type =
     \<lparr>columns = param_columns,
      rows = [[Ts friday, Num 5, Num 1, NA, NA, NA, NA, NA]]\<rparr>"

definition world_float_type :: world where
  "world_float_type =
     \<lparr>feather = Table stored_float_type, log = [], fetched = [], writes = 1\<rparr>"

section \<open>Facts about the calendar\<close>

lemma roll_forward_busday: "np_is_busday hs (roll_forward hs d)"
  by (induction hs d rule: roll_forward.induct) (simp add: roll_forward.simps)

lemma roll_forward_ge: "d \<le> roll_forward hs d"
proof (induction hs d rule: roll_forward.induct)
  case (1 hs d)
  show ?case
  proof (cases "np_is_busday hs d")
    case True
    then show ?thesis by (simp add: roll_forward.simps)
  next
    case False
    with 1 have "d + 1 \<le> roll_forward hs (d + 1)" by simp
    with False show ?thesis by (simp add: roll_forward.simps [of hs d])
  qed
qed

lemma roll_forward_least: "d \<le> e \<Longrightarrow> np_is_busday hs e \<Longrightarrow> roll_forward hs d \<le> e"
proof (induction hs d rule: roll_forward.induct)
  case (1 hs d)
  show ?case
  proof (cases "np_is_busday hs d")
    case True
    with 1 show ?thesis by (simp add: roll_forward.simps)
  next
    case False
    with 1 have "d \<noteq> e" by auto
    with 1 False have "roll_forward hs (d + 1) \<le> e" by simp
    with False show ?thesis by (simp add: roll_forward.simps [of hs d])
  qed
qed

lemma roll_backward_busday: "np_is_busday hs (roll_backward hs d)"
  by (induction hs d rule: roll_backward.induct) (simp add: roll_backward.simps)

lemma roll_backward_le: "roll_backward hs d \<le> d"
proof (induction hs d rule: roll_backward.induct)
  case (1 hs d)
  show ?case
  proof (cases "np_is_busday hs d")
    case True
    then show ?thesis by (simp add: roll_backward.simps)
  next
    case False
    with 1 have "roll_backward hs (d - 1) \<le> d - 1" by simp
    with False show ?thesis by (simp add: roll_backward.simps [of hs d])
  qed
qed

lemma roll_backward_greatest: "e \<le> d \<Longrightarrow> np_is_busday hs e \<Longrightarrow> e \<le> roll_backward hs d"
proof (induction hs d rule: roll_backward.induct)
  case (1 hs d)
  show ?case
  proof (cases "np_is_busday hs d")
    case True
    with 1 show ?thesis by (simp add: roll_backward.simps)
  next
    case False
    with 1 have "d \<noteq> e" by auto
    with 1 False have "e \<le> roll_backward hs (d - 1)" by simp
    with False show ?thesis by (simp add: roll_backward.simps [of hs d])
  qed
qed

lemma offset_minus_one:
  "busday_offset hs d (- 1) Forward = roll_backward hs (roll_forward hs d - 1)"
  by (simp add: busday_offset_def prev_busday_def)

lemma offset_plus_one:
  "busday_offset hs d 1 Backward = roll_forward hs (roll_backward hs d + 1)"
  by (simp add: busday_offset_def next_busday_def)

lemma offset_minus_one_lt: "busday_offset hs d (- 1) Forward < d"
proof (rule ccontr)
  let ?r = "roll_backward hs (roll_forward hs d - 1)"
  assume "\<not> busday_offset hs d (- 1) Forward < d"
  then have "d \<le> ?r" by (simp add: offset_minus_one)
  then have "roll_forward hs d \<le> ?r"
    by (rule roll_forward_least) (rule roll_backward_busday)
  moreover have "?r \<le> roll_forward hs d - 1" by (rule roll_backward_le)
  ultimately show False by simp
qed

lemma offset_plus_one_gt: "d < busday_offset hs d 1 Backward"
proof (rule ccontr)
  let ?r = "roll_forward hs (roll_backward hs d + 1)"
  assume "\<not> d < busday_offset hs d 1 Backward"
  then have "?r \<le> d" by (simp add: offset_plus_one)
  then have "?r \<le> roll_backward hs d"
    by (rule roll_backward_greatest) (rule roll_forward_busday)
  moreover have "roll_backward hs d + 1 \<le> ?r" by (rule roll_forward_ge)
  ultimately show False by simp
qed

lemma offset_minus_one_busday: "np_is_busday hs (busday_offset hs d (- 1) Forward)"
  by (simp add: offset_minus_one roll_backward_busday)

lemma offset_plus_one_busday: "np_is_busday hs (busday_offset hs d 1 Backward)"
  by (simp add: offset_plus_one roll_forward_busday)

lemma DAY_NANOS_pos: "0 < DAY_NANOS"
  by (simp add: DAY_NANOS_def)

lemma to_day_combine: "to_day (combine d (time_of_day t)) = d"
  using DAY_NANOS_pos by (simp add: to_day_def combine_def time_of_day_def)

lemma time_of_day_combine: "time_of_day (combine d (time_of_day t)) = time_of_day t"
  by (simp add: combine_def time_of_day_def)

lemma combine_to_day: "combine (to_day t) (time_of_day t) = t"
  by (simp add: combine_def to_day_def time_of_day_def)

lemma combine_less: "combine a tod < combine b tod \<longleftrightarrow> a < b"
  using DAY_NANOS_pos by (simp add: combine_def)



lemma to_day_normalize: "to_day (normalize_ts t) = to_day t"
  using DAY_NANOS_pos by (simp add: to_day_def normalize_ts_def minus_mod_eq_mult_div)

lemma time_of_day_normalize: "time_of_day (normalize_ts t) = 0"
  by (simp add: time_of_day_def normalize_ts_def minus_mod_eq_mult_div)

lemma normalize_ts_idem: "time_of_day t = 0 \<Longrightarrow> normalize_ts t = t"
  by (simp add: time_of_day_def normalize_ts_def)

lemma normalize_ts_mono: "a \<le> b \<Longrightarrow> normalize_ts a \<le> normalize_ts b"
  using DAY_NANOS_pos by (simp add: normalize_ts_def minus_mod_eq_mult_div zdiv_mono1)


lemma apply_back_lt: "CustomBusinessDay_apply H (- 1) t < t"
proof -
  have "combine (busday_offset (busdaycal_holidays H) (to_day t) (- 1) Forward) (time_of_day t)
        < combine (to_day t) (time_of_day t)"
    by (simp add: combine_less offset_minus_one_lt)
  then show ?thesis
    by (simp add: CustomBusinessDay_apply_def combine_to_day)
qed

lemma apply_fwd_gt: "t < CustomBusinessDay_apply H 1 t"
proof -
  have "combine (to_day t) (time_of_day t)
        < combine (busday_offset (busdaycal_holidays H) (to_day t) 1 Backward) (time_of_day t)"
    by (simp add: combine_less offset_plus_one_gt)
  then show ?thesis
    by (simp add: CustomBusinessDay_apply_def combine_to_day)
qed

lemma apply_back_on_offset: "is_on_offset H (CustomBusinessDay_apply H (- 1) t)"
  by (simp add: is_on_offset_def CustomBusinessDay_apply_def to_day_combine
      offset_minus_one_busday)

lemma apply_fwd_on_offset: "is_on_offset H (CustomBusinessDay_apply H 1 t)"
  by (simp add: is_on_offset_def CustomBusinessDay_apply_def to_day_combine
      offset_plus_one_busday)

lemma apply_time_of_day: "time_of_day (CustomBusinessDay_apply H n t) = time_of_day t"
  by (simp add: CustomBusinessDay_apply_def time_of_day_combine)

lemma weekday_day_of_week: "weekday t = day_of_week (to_day t)"
  unfolding weekday_def day_of_week_def by presburger

lemma on_offset_business_day:
  assumes "is_on_offset H t" and "time_of_day t = 0"
  shows "is_business_day H t"
proof -
  have n: "normalize_ts t = t"
    using assms(2) by (rule normalize_ts_idem)
  have "to_day t |\<notin>| busdaycal_holidays H" and "day_of_week (to_day t) < 5"
    using assms(1) by (simp_all add: is_on_offset_def np_is_busday_def)
  then have "t |\<notin>| H" and "weekday t < 5"
    by (auto simp: busdaycal_holidays_def weekday_day_of_week)
  then show ?thesis
    by (simp add: is_business_day_def n)
qed

lemma gen_loop_total: "\<exists>xs. gen_loop H cur stop = Inr xs"
proof (induction H cur stop rule: gen_loop.induct)
  case (1 H cur stop)
  show ?case
  proof (cases "cur < stop")
    case True
    have gt: "\<not> CustomBusinessDay_apply H 1 cur \<le> cur"
      using apply_fwd_gt [of cur H] by simp
    from True gt 1 obtain xs where "gen_loop H (CustomBusinessDay_apply H 1 cur) stop = Inr xs"
      by auto
    with True gt show ?thesis
      by (simp add: gen_loop.simps [of H cur stop])
  next
    case False
    then show ?thesis
      by (simp add: gen_loop.simps [of H cur stop])
  qed
qed

lemma gen_loop_props:
  "gen_loop H cur stop = Inr xs \<Longrightarrow> is_on_offset H cur \<Longrightarrow>
     sorted_wrt (<) xs \<and>
     (\<forall>x\<in>set xs. cur \<le> x \<and> x \<le> stop \<and> is_on_offset H x \<and> time_of_day x = time_of_day cur)"
proof (induction H cur stop arbitrary: xs rule: gen_loop.induct)
  case (1 H cur stop)
  let ?n = "CustomBusinessDay_apply H 1 cur"
  show ?case
  proof (cases "cur < stop")
    case True
    have gt: "\<not> ?n \<le> cur"
      using apply_fwd_gt [of cur H] by simp
    obtain ys where ys: "gen_loop H ?n stop = Inr ys"
      using gen_loop_total by blast
    have xs: "xs = cur # ys"
      using "1.prems"(1) True gt ys by (simp add: gen_loop.simps [of H cur stop])
    have ih: "sorted_wrt (<) ys \<and>
       (\<forall>x\<in>set ys. ?n \<le> x \<and> x \<le> stop \<and> is_on_offset H x \<and> time_of_day x = time_of_day ?n)"
      using "1.IH" [of ys] True gt ys apply_fwd_on_offset by simp
    have "cur < ?n" using gt by simp
    with ih True "1.prems"(2) show ?thesis
      unfolding xs by (auto simp: apply_time_of_day)
  next
    case False
    with "1.prems" show ?thesis
      by (auto simp: gen_loop.simps [of H cur stop] split: if_splits)
  qed
qed

lemma gen_loop_empty: "stop < cur \<Longrightarrow> gen_loop H cur stop = Inr []"
  by (simp add: gen_loop.simps [of H cur stop])

lemma rollforward_props:
  "is_on_offset H (rollforward H t) \<and> t \<le> rollforward H t \<and>
   time_of_day (rollforward H t) = time_of_day t"
  using apply_fwd_gt [of t H]
  by (simp add: rollforward_def apply_fwd_on_offset apply_time_of_day)

lemma rollback_props:
  "is_on_offset H (rollback H t) \<and> rollback H t \<le> t"
  using apply_back_lt [of H t]
  by (simp add: rollback_def apply_back_on_offset)

text \<open>The general form of the range, for endpoints with or without a time of day.\<close>

lemma day_range_general:
  "\<exists>xs. day_range H a b = Inr xs \<and>
     (normalize_ts b < normalize_ts a \<longrightarrow> xs = []) \<and>
     sorted_wrt (<) xs \<and>
     (\<forall>x\<in>set xs. is_business_day H x \<and> normalize_ts a \<le> x \<and> x \<le> normalize_ts b)"
proof -
  define s where "s = normalize_ts a"
  define e where "e = normalize_ts b"
  define s1 where "s1 = (if \<not> is_on_offset H s then rollforward H s else s)"
  define e1 where "e1 = (if is_on_offset H s \<and> \<not> is_on_offset H e then rollback H e else e)"
  define e2 where "e2 = (if e1 < s1 then CustomBusinessDay_apply H (- 1) s1 else e1)"
  have dr: "day_range H a b = gen_loop H s1 e2"
    by (simp add: day_range_def generate_range_def Let_def s_def e_def s1_def e1_def e2_def)
  have s1: "is_on_offset H s1" "s \<le> s1" "time_of_day s1 = 0"
    using rollforward_props [of H s]
    by (auto simp: s1_def s_def time_of_day_normalize)
  have e1: "e1 \<le> e"
    using rollback_props [of H e] by (simp add: e1_def)
  have e2: "e2 \<le> e" if "s1 \<le> e2"
    using that e1 apply_back_lt [of H s1] by (auto simp: e2_def split: if_splits)
  obtain xs where xs: "gen_loop H s1 e2 = Inr xs"
    using gen_loop_total by blast
  have props: "sorted_wrt (<) xs"
    "\<forall>x\<in>set xs. s1 \<le> x \<and> x \<le> e2 \<and> is_on_offset H x \<and> time_of_day x = time_of_day s1"
    using gen_loop_props [OF xs s1(1)] by simp_all
  have empty: "xs = []" if "e < s"
  proof -
    have "e1 < s1" using that e1 s1(2) by simp
    then have "e2 < s1" using apply_back_lt [of H s1] by (simp add: e2_def)
    then show ?thesis using xs by (simp add: gen_loop_empty)
  qed
  have elems: "is_business_day H x \<and> s \<le> x \<and> x \<le> e" if "x \<in> set xs" for x
  proof -
    have x: "s1 \<le> x" "x \<le> e2" "is_on_offset H x" "time_of_day x = 0"
      using props(2) that s1(3) by auto
    then have "s1 \<le> e2" by simp
    then have "e2 \<le> e" by (rule e2)
    with x show ?thesis
      using on_offset_business_day s1(2) by auto
  qed
  show ?thesis
    using dr xs props(1) empty elems unfolding s_def e_def by auto
qed


text \<open>
  The calendar of the offset cuts every holiday to its day; for a holiday set of
  calendar dates it is the calendar of \<open>is_business_day\<close>.
\<close>

lemma on_offset_iff_business_day:
  assumes "\<forall>h. h |\<in>| H \<longrightarrow> time_of_day h = 0" and "time_of_day b = 0"
  shows "is_on_offset H b \<longleftrightarrow> is_business_day H b"
proof -
  have "to_day b |\<in>| busdaycal_holidays H \<longleftrightarrow> b |\<in>| H"
  proof
    assume "to_day b |\<in>| busdaycal_holidays H"
    then obtain h where h: "h |\<in>| H" "to_day h = to_day b"
      by (auto simp: busdaycal_holidays_def)
    then have "combine (to_day h) (time_of_day h) = combine (to_day b) (time_of_day b)"
      using assms by simp
    then show "b |\<in>| H"
      using h(1) by (simp add: combine_to_day)
  next
    assume "b |\<in>| H"
    then show "to_day b |\<in>| busdaycal_holidays H"
      by (auto simp: busdaycal_holidays_def)
  qed
  then show ?thesis
    using assms(2)
    by (simp add: is_on_offset_def np_is_busday_def is_business_day_def normalize_ts_idem
        weekday_day_of_week)
qed



section \<open>Claims about the calendar\<close>

text \<open>
  Claim C7. For every date \<open>d\<close> and every holiday set, \<open>is_business_day\<close> holds
  exactly when the weekday of \<open>d\<close>, normalized to its date, is Monday to Friday
  (0 to 4) and the normalized date is not in the holiday set. The weekday does not
  depend on the time of day.
\<close>

theorem is_business_day_spec:
  "(is_business_day H d \<longleftrightarrow>
      weekday (normalize_ts d) \<in> {0, 1, 2, 3, 4} \<and> normalize_ts d |\<notin>| H) \<and>
   weekday (normalize_ts d) = weekday d"
proof -
  have "0 \<le> weekday (normalize_ts d)"
    by (simp add: weekday_def)
  then have "weekday (normalize_ts d) < 5 \<longleftrightarrow> weekday (normalize_ts d) \<in> {0, 1, 2, 3, 4}"
    by auto
  then show ?thesis
    by (simp add: is_business_day_def weekday_def to_day_normalize)
qed






text \<open>
  Claim C2. \<open>day_count a b\<close> is claimed to return the length of \<open>day_range a b\<close> minus
  one, floored at 0, without raising. The method looks up \<^verbatim>\<open>self.bday_range\<close>, which the
  class does not define: every call raises \<^verbatim>\<open>AttributeError\<close>.
\<close>

theorem day_count_raises:
  "day_count H a b = Inl (AttributeError ''bday_range'')"
  by (simp add: day_count_def BRCal_getattr_def)


section \<open>Facts about the manager\<close>

lemma day_range_total: "\<exists>xs. day_range H a b = Inr xs"
  using day_range_general [of H a b] by blast

lemma log_msg_frame [simp]:
  "feather (log_msg l m w) = feather w"
  "fetched (log_msg l m w) = fetched w"
  "writes (log_msg l m w) = writes w"
  by (simp_all add: log_msg_def)

lemma validate_date_result:
  "\<exists>b w1. validate_date H now date w = (Inr b, w1) \<and> feather w1 = feather w \<and>
     fetched w1 = fetched w \<and> writes w1 = writes w"
proof -
  obtain xs where "day_range H date (today now) = Inr xs"
    using day_range_total by blast
  then show ?thesis
    by (auto simp: validate_date_def)
qed

lemma load_existing_world [simp]:
  "feather (snd (load_existing w)) = feather w"
  "fetched (snd (load_existing w)) = fetched w"
  "writes (snd (load_existing w)) = writes w"
  by (simp_all add: load_existing_def split: feather_file.splits)

lemma load_existing_fst:
  "fst (load_existing w) =
     (if feather w = Truncated then Inl ArrowInvalid else Inr (existing_frame w))"
  by (simp add: load_existing_def existing_frame_def split: feather_file.splits)

lemma existing_frame_cong: "feather w1 = feather w \<Longrightarrow> existing_frame w1 = existing_frame w"
  by (simp add: existing_frame_def)

lemma set_keep_first: "set (keep_first xs) = set xs"
  by (induction xs rule: keep_first.induct) auto

lemma distinct_keep_first: "distinct (keep_first xs)"
  by (induction xs rule: keep_first.induct) (auto simp: set_keep_first)

lemma columns_drop_duplicates [simp]: "columns (drop_duplicates f) = columns f"
  by (simp add: drop_duplicates_def)

lemma distinct_drop_duplicates:
  "columns f \<noteq> [] \<Longrightarrow> distinct (rows (drop_duplicates f))"
  by (simp add: drop_duplicates_def df_empty_def distinct_keep_first)

lemma sort_values_Inr:
  assumes "sort_values c f = Inr g"
  shows "c \<in> set (columns f)" and "columns g = columns f"
    and "rows g = sort_key (\<lambda>r. cell_key (get_cell (columns f) r c)) (rows f)"
  using assms by (auto simp: sort_values_def split: if_splits)

lemma sort_values_Inl:
  "sort_values c f = Inl e \<longleftrightarrow>
     (c \<notin> set (columns f) \<and> e = KeyError c) \<or>
     (c \<in> set (columns f) \<and> \<not> comparable (column f c) \<and> e = TypeError)"
  by (auto simp: sort_values_def)

lemma date_le_Ts [simp]: "date_le (Ts a) (Ts b) \<longleftrightarrow> a \<le> b"
  by (auto simp: date_le_def)

lemma date_le_NA [simp]: "date_le c NA"
  by (cases c) (simp_all add: date_le_def less_eq_prod_def)

lemma date_le_NA_Ts [simp]: "\<not> date_le NA (Ts b)"
  by (simp add: date_le_def)

lemma before_fetch_frame [simp]:
  "feather (before_fetch date existing w) = feather w"
  "writes (before_fetch date existing w) = writes w"
  "fetched (before_fetch date existing w) = fetched w @ [date]"
  by (simp_all add: before_fetch_def Let_def)

lemma fetch_and_merge_Inl:
  assumes "src date = Inl e"
  shows "fetch_and_merge src date existing w =
           (Inl e, log_msg ERROR (ScrapeError e) (before_fetch date existing w))"
  using assms by (simp add: fetch_and_merge_def scrape_def)

lemma fetch_and_merge_Inr:
  assumes "src date = Inr ps"
  shows "fetch_and_merge src date existing w =
           merge_and_store existing (DataFrame_of date ps)
             (log_msg INFO (NewData date (length (rows (DataFrame_of date ps))))
                (before_fetch date existing w))"
  using assms by (simp add: fetch_and_merge_def scrape_def)

text \<open>The three ways the merge step ends.\<close>

lemma merge_and_store_sort_error:
  assumes "sort_values ''date'' (merged existing new_data) = Inl e"
  shows "merge_and_store existing new_data w = (Inl e, w)"
  using assms by (simp add: merge_and_store_def)

lemma merge_and_store_write_error:
  assumes "sort_values ''date'' (merged existing new_data) = Inr g" and "\<not> storable g"
  shows "merge_and_store existing new_data w =
           (Inl ArrowInvalid, w\<lparr>feather := Truncated, writes := writes w + 1\<rparr>)"
  using assms by (simp add: merge_and_store_def to_feather_def)

lemma merge_and_store_stored:
  assumes "sort_values ''date'' (merged existing new_data) = Inr g" and "storable g"
  shows "merge_and_store existing new_data w =
           (Inr True, log_msg INFO (Saved (length (rows g)))
              (w\<lparr>feather := Table g, writes := writes w + 1\<rparr>))"
  using assms by (simp add: merge_and_store_def to_feather_def)

lemma merge_and_store_True:
  assumes "fst (merge_and_store existing new_data w) = Inr True"
  shows "\<exists>g. sort_values ''date'' (merged existing new_data) = Inr g \<and> storable g \<and>
           feather (snd (merge_and_store existing new_data w)) = Table g"
proof (cases "sort_values ''date'' (merged existing new_data)")
  case (Inl e)
  with assms show ?thesis
    by (simp add: merge_and_store_sort_error)
next
  case (Inr g)
  with assms show ?thesis
    by (cases "storable g")
      (simp_all add: merge_and_store_write_error merge_and_store_stored)
qed

lemma sorted_frame_distinct:
  assumes "sort_values ''date'' (merged existing new_data) = Inr g"
  shows "distinct (rows g) \<and>
         sorted_wrt (\<lambda>r s. date_le (date_cell g r) (date_cell g s)) (rows g)"
proof -
  let ?m = "merged existing new_data"
  have cols: "''date'' \<in> set (columns ?m)" "columns g = columns ?m"
    and rows: "rows g = sort_key (\<lambda>r. cell_key (get_cell (columns ?m) r ''date'')) (rows ?m)"
    using sort_values_Inr [OF assms] by simp_all
  have "columns (concat_frames existing new_data) \<noteq> []"
    using cols(1) by (auto simp: merged_def)
  then have "distinct (rows ?m)"
    unfolding merged_def by (rule distinct_drop_duplicates)
  then have d: "distinct (rows g)"
    by (simp add: rows)
  have "sorted (map (\<lambda>r. cell_key (get_cell (columns ?m) r ''date'')) (rows g))"
    unfolding rows by (rule sorted_sort_key)
  then have "sorted_wrt (\<lambda>r s. date_le (date_cell g r) (date_cell g s)) (rows g)"
    by (simp add: sorted_map date_le_def date_cell_def cols(2))
  with d show ?thesis
    by blast
qed

text \<open>The run, split at the validation, the load and the duplicate check.\<close>

lemma result_cases:
  obtains (skip) w1 where "scrape_and_update H now src date w = (Inr False, w1)"
      "feather w1 = feather w" "fetched w1 = fetched w" "writes w1 = writes w"
      "\<not> fetch_reached H now date w"
    | (unreadable) w1 where "scrape_and_update H now src date w = (Inl ArrowInvalid, w1)"
      "feather w = Truncated"
      "feather w1 = feather w" "fetched w1 = fetched w" "writes w1 = writes w"
      "\<not> fetch_reached H now date w"
    | (fetch) w1 where "fetch_reached H now date w"
      "scrape_and_update H now src date w =
         fetch_and_merge src date (existing_frame w) w1"
      "feather w1 = feather w" "fetched w1 = fetched w" "writes w1 = writes w"
proof -
  obtain b w1 where v: "validate_date H now date w = (Inr b, w1)" "feather w1 = feather w"
    "fetched w1 = fetched w" "writes w1 = writes w"
    using validate_date_result by blast
  let ?w2 = "snd (load_existing w1)"
  have w2: "feather ?w2 = feather w" "fetched ?w2 = fetched w" "writes ?w2 = writes w"
    using v by simp_all
  have ld: "fst (load_existing w1) =
      (if feather w = Truncated then Inl ArrowInvalid else Inr (existing_frame w))"
    using v(2) existing_frame_cong [OF v(2)] by (simp add: load_existing_fst)
  have vf: "fst (validate_date H now date w) = Inr b"
    using v(1) by simp
  show thesis
  proof (cases b)
    case False
    then have "scrape_and_update H now src date w = (Inr False, w1)"
      using v(1) by (simp add: scrape_and_update_def)
    moreover have "\<not> fetch_reached H now date w"
      using False vf by (simp add: fetch_reached_def)
    ultimately show thesis
      using v by (intro skip [of w1]) simp_all
  next
    case True
    show thesis
    proof (cases "feather w = Truncated")
      case t: True
      then have "scrape_and_update H now src date w = (Inl ArrowInvalid, ?w2)"
        using True v(1) ld by (simp add: scrape_and_update_def case_prod_beta)
      moreover have "\<not> fetch_reached H now date w"
        using t by (simp add: fetch_reached_def)
      ultimately show thesis
        using t w2 by (intro unreadable [of ?w2]) simp_all
    next
      case f: False
      show thesis
      proof (cases "already_present (existing_frame w) date")
        case p: True
        then have "scrape_and_update H now src date w =
            (Inr False, log_msg INFO (AlreadyPresent date) ?w2)"
          using True f v(1) ld by (simp add: scrape_and_update_def case_prod_beta)
        moreover have "\<not> fetch_reached H now date w"
          using p by (simp add: fetch_reached_def)
        ultimately show thesis
          using w2 by (intro skip [of "log_msg INFO (AlreadyPresent date) ?w2"]) simp_all
      next
        case False
        then have "scrape_and_update H now src date w =
            fetch_and_merge src date (existing_frame w) ?w2"
          using True f v(1) ld by (simp add: scrape_and_update_def case_prod_beta)
        moreover have "fetch_reached H now date w"
          using True f False vf by (simp add: fetch_reached_def)
        ultimately show thesis
          using w2 by (intro fetch [of ?w2]) simp_all
      qed
    qed
  qed
qed

lemma skip_present:
  assumes "feather w = Table f" and "\<not> df_empty f" and "''date'' \<in> set (columns f)"
    and "Ts date \<in> set (column f ''date'')"
  shows "fst (scrape_and_update H now src date w) = Inr False \<and>
         feather (snd (scrape_and_update H now src date w)) = Table f \<and>
         fetched (snd (scrape_and_update H now src date w)) = fetched w \<and>
         writes (snd (scrape_and_update H now src date w)) = writes w"
proof (cases rule: result_cases [where H = H and now = now and src = src and date = date and w = w])
  case (skip w1)
  then show ?thesis
    using assms(1) by simp
next
  case (unreadable w1)
  then show ?thesis
    using assms(1) by simp
next
  case (fetch w1)
  have "already_present (existing_frame w) date"
    using assms by (simp add: already_present_def existing_frame_def)
  with fetch(1) show ?thesis
    by (simp add: fetch_reached_def)
qed

lemma stored_after_success:
  assumes "fst (scrape_and_update H now src date w) = Inr True"
  shows "\<exists>f. feather (snd (scrape_and_update H now src date w)) = Table f \<and>
           distinct (rows f) \<and>
           sorted_wrt (\<lambda>r s. date_le (date_cell f r) (date_cell f s)) (rows f)"
proof (cases rule: result_cases [where H = H and now = now and src = src and date = date and w = w])
  case (skip w1)
  with assms show ?thesis by simp
next
  case (unreadable w1)
  with assms show ?thesis by simp
next
  case (fetch w1)
  show ?thesis
  proof (cases "src date")
    case (Inl e)
    with assms fetch(2) show ?thesis
      by (simp add: fetch_and_merge_Inl)
  next
    case (Inr ps)
    let ?w = "log_msg INFO (NewData date (length (rows (DataFrame_of date ps))))
        (before_fetch date (existing_frame w) w1)"
    have run: "scrape_and_update H now src date w =
        merge_and_store (existing_frame w) (DataFrame_of date ps) ?w"
      unfolding fetch(2) using Inr by (rule fetch_and_merge_Inr)
    then obtain g where
      g: "sort_values ''date'' (merged (existing_frame w) (DataFrame_of date ps)) = Inr g"
      and st: "feather (snd (scrape_and_update H now src date w)) = Table g"
      using assms merge_and_store_True [of "existing_frame w" "DataFrame_of date ps" ?w]
      by auto
    show ?thesis
      using st sorted_frame_distinct [OF g] by blast
  qed
qed

text \<open>A fetch that raises ends the run: the error is logged and nothing is written.\<close>

lemma fetch_error_propagates:
  assumes "fetch_reached H now date w" and "src date = Inl e"
  shows "fst (scrape_and_update H now src date w) = Inl e \<and>
         (ERROR, ScrapeError e) \<in> set (log (snd (scrape_and_update H now src date w))) \<and>
         feather (snd (scrape_and_update H now src date w)) = feather w \<and>
         writes (snd (scrape_and_update H now src date w)) = writes w \<and>
         fetched (snd (scrape_and_update H now src date w)) = fetched w @ [date]"
proof (cases rule: result_cases [where H = H and now = now and src = src and date = date and w = w])
  case (skip w1)
  with assms(1) show ?thesis by simp
next
  case (unreadable w1)
  with assms(1) show ?thesis by simp
next
  case (fetch w1)
  have "scrape_and_update H now src date w =
      (Inl e, log_msg ERROR (ScrapeError e) (before_fetch date (existing_frame w) w1))"
    unfolding fetch(2) using assms(2) by (rule fetch_and_merge_Inl)
  then show ?thesis
    using fetch(3-5) by (simp add: log_msg_def)
qed

text \<open>
  Every way a run raises, in this model: the stored file cannot be read, the fetch
  raises, the merged frame cannot be sorted by \<open>date\<close>, or it cannot be written.
\<close>

lemma raise_cases:
  assumes "fst (scrape_and_update H now src date w) = Inl e"
  shows "(fst (validate_date H now date w) = Inr True \<and> feather w = Truncated \<and>
            e = ArrowInvalid) \<or>
         (fetch_reached H now date w \<and>
            (src date = Inl e \<or>
             (\<exists>ps. src date = Inr ps \<and>
                (sort_values ''date'' (merged (existing_frame w) (DataFrame_of date ps)) = Inl e \<or>
                 (\<exists>g. sort_values ''date'' (merged (existing_frame w) (DataFrame_of date ps))
                        = Inr g \<and> \<not> storable g \<and> e = ArrowInvalid)))))"
proof (cases rule: result_cases [where H = H and now = now and src = src and date = date and w = w])
  case (skip w1)
  with assms show ?thesis by simp
next
  case (unreadable w1)
  obtain b w2 where v: "validate_date H now date w = (Inr b, w2)"
    using validate_date_result by blast
  have "b"
  proof (rule ccontr)
    assume "\<not> b"
    then have "scrape_and_update H now src date w = (Inr False, w2)"
      using v by (simp add: scrape_and_update_def)
    with unreadable(1) show False by simp
  qed
  with v unreadable assms show ?thesis
    by simp
next
  case (fetch w1)
  show ?thesis
  proof (cases "src date")
    case (Inl e')
    with assms fetch show ?thesis
      by (simp add: fetch_and_merge_Inl)
  next
    case (Inr ps)
    let ?w = "log_msg INFO (NewData date (length (rows (DataFrame_of date ps))))
        (before_fetch date (existing_frame w) w1)"
    let ?s = "sort_values ''date'' (merged (existing_frame w) (DataFrame_of date ps))"
    have run: "scrape_and_update H now src date w =
        merge_and_store (existing_frame w) (DataFrame_of date ps) ?w"
      unfolding fetch(2) using Inr by (rule fetch_and_merge_Inr)
    show ?thesis
    proof (cases ?s)
      case e': (Inl e')
      with assms run have "e' = e"
        by (simp add: merge_and_store_sort_error)
      with e' Inr fetch(1) show ?thesis by simp
    next
      case g: (Inr g)
      show ?thesis
      proof (cases "storable g")
        case True
        with assms run g show ?thesis
          by (simp add: merge_and_store_stored)
      next
        case False
        with assms run g have "e = ArrowInvalid"
          by (simp add: merge_and_store_write_error)
        with False g Inr fetch(1) show ?thesis by simp
      qed
    qed
  qed
qed

lemma empty_fetch_empty_store:
  assumes "fst (validate_date H now date w) = Inr True" and "feather w = NoFile"
    and "src date = Inr []"
  shows "fst (scrape_and_update H now src date w) = Inl (KeyError ''date'') \<and>
         feather (snd (scrape_and_update H now src date w)) = NoFile \<and>
         writes (snd (scrape_and_update H now src date w)) = writes w"
proof (cases rule: result_cases [where H = H and now = now and src = src and date = date and w = w])
  case (skip w1)
  have "fetch_reached H now date w"
    using assms(1,2)
    by (simp add: fetch_reached_def existing_frame_def already_present_def df_empty_def
        DataFrame_nil_def)
  with skip show ?thesis by simp
next
  case (unreadable w1)
  with assms(2) show ?thesis by simp
next
  case (fetch w1)
  have ex: "existing_frame w = DataFrame_nil"
    using assms(2) by (simp add: existing_frame_def)
  have "sort_values ''date'' (merged DataFrame_nil (DataFrame_of date [])) =
      Inl (KeyError ''date'')"
    by (simp add: sort_values_def merged_def concat_frames_def DataFrame_of_def
        DataFrame_nil_def)
  then have "scrape_and_update H now src date w =
      (Inl (KeyError ''date''),
       log_msg INFO (NewData date (length (rows (DataFrame_of date []))))
         (before_fetch date DataFrame_nil w1))"
    unfolding fetch(2) ex using assms(3)
    by (simp add: fetch_and_merge_Inr merge_and_store_sort_error)
  then show ?thesis
    using fetch(3,5) assms(2) by simp
qed

lemma validate_date_accepts_iff:
  "fst (validate_date H now d w) = Inr True \<longleftrightarrow>
     is_business_day H d \<and> d \<le> today now \<and>
     (\<exists>xs. day_range H d (today now) = Inr xs \<and> length xs \<le> 5)"
proof -
  obtain xs where "day_range H d (today now) = Inr xs"
    using day_range_total by blast
  then show ?thesis
    by (auto simp: validate_date_def)
qed

lemma get_cell_reindex:
  "c \<in> set new \<Longrightarrow> get_cell new (reindex old new r) c = get_cell old r c"
  by (simp add: get_cell_def reindex_def map_of_zip_map)

lemma date_cell_param_row: "get_cell param_columns (param_row date p) ''date'' = Ts date"
  by (simp add: get_cell_def param_columns_def param_row_def)

lemma merged_holds_date:
  assumes "ps \<noteq> []"
  shows "\<not> df_empty (merged existing (DataFrame_of date ps)) \<and>
         ''date'' \<in> set (columns (merged existing (DataFrame_of date ps))) \<and>
         Ts date \<in> set (column (merged existing (DataFrame_of date ps)) ''date'')"
proof -
  let ?new = "DataFrame_of date ps"
  let ?c = "concat_frames existing ?new"
  obtain p where p: "p \<in> set ps"
    using assms by (cases ps) auto
  have new: "columns ?new = param_columns" "rows ?new = map (param_row date) ps"
    using assms by (simp_all add: DataFrame_of_def)
  have cols: "''date'' \<in> set (columns ?c)"
    by (auto simp: concat_frames_def Let_def new param_columns_def)
  let ?r = "reindex param_columns (columns ?c) (param_row date p)"
  have r: "?r \<in> set (rows ?c)"
    using p by (simp add: concat_frames_def Let_def new)
  then have ne: "\<not> df_empty ?c"
    using cols by (auto simp: df_empty_def)
  then have m: "columns (merged existing ?new) = columns ?c"
    "set (rows (merged existing ?new)) = set (rows ?c)"
    by (simp_all add: merged_def drop_duplicates_def set_keep_first)
  have "get_cell (columns ?c) ?r ''date'' = Ts date"
    using cols by (simp add: get_cell_reindex date_cell_param_row)
  then have "Ts date \<in> set (column (merged existing ?new) ''date'')"
    using r m by (force simp: column_def)
  moreover have "\<not> df_empty (merged existing ?new)"
    using ne m r by (auto simp: df_empty_def)
  ultimately show ?thesis
    using cols m(1) by simp
qed

lemma sort_values_keeps_date:
  assumes "sort_values ''date'' f = Inr g" and "\<not> df_empty f"
    and "Ts date \<in> set (column f ''date'')"
  shows "already_present g date"
proof -
  have g: "''date'' \<in> set (columns f)" "columns g = columns f"
    "rows g = sort_key (\<lambda>r. cell_key (get_cell (columns f) r ''date'')) (rows f)"
    using sort_values_Inr [OF assms(1)] by simp_all
  have "set (rows g) = set (rows f)"
    by (simp add: g(3))
  then have "set (column g ''date'') = set (column f ''date'')" and "rows g \<noteq> []"
    using assms(2) by (auto simp: column_def g(2) df_empty_def)
  then show ?thesis
    using assms(2,3) g(1,2) by (simp add: already_present_def df_empty_def)
qed

text \<open>
  After a run that stored at least one fetched record, the requested date is in the
  stored frame, so the next run for that date is skipped.
\<close>

lemma date_present_after_success:
  assumes "fst (scrape_and_update H now src date w) = Inr True"
    and "src date = Inr ps" and "ps \<noteq> []"
  shows "\<exists>f. feather (snd (scrape_and_update H now src date w)) = Table f \<and>
           already_present f date"
proof (cases rule: result_cases [where H = H and now = now and src = src and date = date and w = w])
  case (skip w1)
  with assms(1) show ?thesis by simp
next
  case (unreadable w1)
  with assms(1) show ?thesis by simp
next
  case (fetch w1)
  let ?m = "merged (existing_frame w) (DataFrame_of date ps)"
  let ?w = "log_msg INFO (NewData date (length (rows (DataFrame_of date ps))))
      (before_fetch date (existing_frame w) w1)"
  have run: "scrape_and_update H now src date w =
      merge_and_store (existing_frame w) (DataFrame_of date ps) ?w"
    unfolding fetch(2) using assms(2) by (rule fetch_and_merge_Inr)
  then obtain g where g: "sort_values ''date'' ?m = Inr g"
    and st: "feather (snd (scrape_and_update H now src date w)) = Table g"
    using assms(1) merge_and_store_True [of "existing_frame w" "DataFrame_of date ps" ?w]
    by auto
  have "already_present g date"
    using g merged_holds_date [OF assms(3), of "existing_frame w" date]
    by (intro sort_values_keeps_date [of ?m]) simp_all
  with st show ?thesis
    by blast
qed

lemma second_run_after_success:
  assumes "fst (scrape_and_update H now src date w) = Inr True"
    and "src date = Inr ps" and "ps \<noteq> []"
  shows "fst (scrape_and_update H now2 src2 date (snd (scrape_and_update H now src date w)))
           = Inr False \<and>
         feather (snd (scrape_and_update H now2 src2 date
             (snd (scrape_and_update H now src date w))))
           = feather (snd (scrape_and_update H now src date w))"
proof -
  obtain f where f: "feather (snd (scrape_and_update H now src date w)) = Table f"
    "already_present f date"
    using date_present_after_success [OF assms] by blast
  then show ?thesis
    using skip_present [of "snd (scrape_and_update H now src date w)" f date H now2 src2]
    by (simp add: already_present_def)
qed

section \<open>Evaluating the model on concrete inputs\<close>

lemmas cal_eval = DAY_NANOS_def normalize_ts_def to_day_def time_of_day_def combine_def
  weekday_def today_def busdaycal_holidays_def day_of_week_def np_is_busday_def
  roll_forward.simps roll_backward.simps next_busday_def prev_busday_def busday_offset_def
  CustomBusinessDay_apply_def is_on_offset_def rollforward_def rollback_def gen_loop.simps
  generate_range_def day_range_def is_business_day_def previous_business_day_def
  Timestamp_checked_def representable_def TS_MIN_def TS_MAX_def

lemmas example_defs = monday_def monday_9am_def monday_10am_def saturday_def friday_def
  monday_before_def friday_before_def

lemmas frame_eval = df_empty_def get_cell_def column_def reindex_def concat_frames_def
  drop_duplicates_def comparable_def sort_values_def DataFrame_nil_def DataFrame_of_def
  param_columns_def param_row_def renamed_type_def type_mapping_def num_cell_def merged_def
  storable_def to_feather_def

lemma validate_monday: "validate_date {||} monday_10am monday w = (Inr True, w)"
  by (simp add: validate_date_def cal_eval example_defs)

lemma validate_friday: "validate_date {||} monday_10am friday w = (Inr True, w)"
  by (simp add: validate_date_def cal_eval example_defs)

text \<open>
  A write that fails: the stored \<open>type\<close> column holds a float, the fetched records
  bring strings. The sort by \<open>date\<close> succeeds, \<^verbatim>\<open>to_feather\<close> raises, and the file
  is left truncated; the next run cannot read it.
\<close>

lemma failed_write_truncates:
  "fst (scrape_and_update {||} monday_10am two_params monday world_float_type)
     = Inl ArrowInvalid \<and>
   feather (snd (scrape_and_update {||} monday_10am two_params monday world_float_type))
     = Truncated"
  by (simp add: scrape_and_update_def validate_date_def log_msg_def load_existing_def
      already_present_def before_fetch_def fetch_and_merge_def scrape_def
      merge_and_store_def frame_eval cal_eval world_float_type_def stored_float_type_def
      two_params_def example_defs)

lemma truncated_file_raises:
  "feather w = Truncated \<Longrightarrow>
     fst (scrape_and_update {||} monday_10am src monday w) = Inl ArrowInvalid"
  by (simp add: scrape_and_update_def validate_monday load_existing_def)

section \<open>Claims about the manager\<close>

text \<open>
  Claim C1. A business day exactly 5 business-day steps before today is claimed to be
  accepted by \<open>_validate_date\<close>, and one 6 steps before to be rejected. The code counts
  the days of \<open>day_range(date, today)\<close>, both ends included, and rejects more than 5:
  with today Monday 2024-01-15 (a business day, no holidays), the Monday before is 5
  steps of \<open>previous_business_day\<close> back, its range has 6 days, and it is rejected
  as too old; so is the Friday before it, 6 steps back.
\<close>

theorem validate_date_five_steps:
  "previous_business_day {||} (today monday_10am) = Inr friday \<and>
   previous_business_day {||} friday = Inr (combine 19733 0) \<and>
   previous_business_day {||} (combine 19733 0) = Inr (combine 19732 0) \<and>
   previous_business_day {||} (combine 19732 0) = Inr (combine 19731 0) \<and>
   previous_business_day {||} (combine 19731 0) = Inr monday_before \<and>
   previous_business_day {||} monday_before = Inr friday_before \<and>
   is_business_day {||} (today monday_10am) \<and>
   is_business_day {||} monday_before \<and>
   day_range {||} monday_before (today monday_10am) =
     Inr [monday_before, combine 19731 0, combine 19732 0, combine 19733 0, friday, monday] \<and>
   validate_date {||} monday_10am monday_before empty_world =
     (Inr False, log_msg WARNING (TooOld monday_before) empty_world) \<and>
   validate_date {||} monday_10am friday_before empty_world =
     (Inr False, log_msg WARNING (TooOld friday_before) empty_world)"
  by (simp add: validate_date_def cal_eval example_defs)

text \<open>
  Claim C9. Validation is claimed to decide on normalized calendar dates, so that an
  input with a time of day is treated as the same input at midnight. The comparison
  \<open>date > today\<close> takes the input as it is: on Monday 2024-01-15 at 10:00, the
  timestamp of the same day at 09:00 is rejected as a future date, and the same
  timestamp normalized to midnight is accepted.
\<close>

theorem validate_date_time_of_day:
  "today monday_10am = monday \<and> normalize_ts monday_9am = monday \<and>
   validate_date {||} monday_10am monday_9am empty_world =
     (Inr False, log_msg WARNING (InFuture monday_9am) empty_world) \<and>
   validate_date {||} monday_10am (normalize_ts monday_9am) empty_world =
     (Inr True, empty_world)"
  by (simp add: validate_date_def cal_eval example_defs)

text \<open>
  Claim C3. If the stored dataset is not empty, has a \<open>date\<close> column and holds a row
  whose date is the requested date, then \<open>scrape_and_update\<close> returns false, calls the
  scraper not at all, writes nothing, and leaves the stored frame (and so its row count)
  as it was; a second run for the same date, at any later time and whatever the source
  would answer, again returns false and leaves the store as the first run left it.
\<close>

theorem scrape_and_update_idempotent:
  assumes "feather w = Table f" and "\<not> df_empty f" and "''date'' \<in> set (columns f)"
    and "Ts date \<in> set (column f ''date'')"
  shows "let r1 = scrape_and_update H now src date w;
             r2 = scrape_and_update H now2 src2 date (snd r1)
         in fst r1 = Inr False \<and> feather (snd r1) = Table f \<and>
            fetched (snd r1) = fetched w \<and> writes (snd r1) = writes w \<and>
            fst r2 = Inr False \<and> feather (snd r2) = feather (snd r1) \<and>
            fetched (snd r2) = fetched w \<and> writes (snd r2) = writes w"
proof -
  let ?r1 = "scrape_and_update H now src date w"
  have one: "fst ?r1 = Inr False \<and> feather (snd ?r1) = Table f \<and>
      fetched (snd ?r1) = fetched w \<and> writes (snd ?r1) = writes w"
    using assms by (rule skip_present)
  then have "feather (snd ?r1) = Table f"
    by simp
  then have two: "fst (scrape_and_update H now2 src2 date (snd ?r1)) = Inr False \<and>
      feather (snd (scrape_and_update H now2 src2 date (snd ?r1))) = Table f \<and>
      fetched (snd (scrape_and_update H now2 src2 date (snd ?r1))) = fetched (snd ?r1) \<and>
      writes (snd (scrape_and_update H now2 src2 date (snd ?r1))) = writes (snd ?r1)"
    using assms(2-4) by (rule skip_present)
  show ?thesis
    using one two by (simp add: Let_def)
qed

theorem scrape_and_update_idempotent_witness:
  "feather world_with_monday = Table stored_monday \<and> \<not> df_empty stored_monday \<and>
   ''date'' \<in> set (columns stored_monday) \<and> Ts monday \<in> set (column stored_monday ''date'') \<and>
   fst (scrape_and_update {||} monday_10am two_params monday world_with_monday) = Inr False \<and>
   feather (snd (scrape_and_update {||} monday_10am two_params monday world_with_monday))
     = Table stored_monday \<and>
   fetched (snd (scrape_and_update {||} monday_10am two_params monday world_with_monday)) = [] \<and>
   writes (snd (scrape_and_update {||} monday_10am two_params monday world_with_monday)) = 1"
proof -
  have h1: "feather world_with_monday = Table stored_monday"
    by (simp add: world_with_monday_def)
  have h2: "\<not> df_empty stored_monday"
    by (simp add: stored_monday_def df_empty_def param_columns_def)
  have h3: "''date'' \<in> set (columns stored_monday)"
    by (simp add: stored_monday_def param_columns_def)
  have h4: "Ts monday \<in> set (column stored_monday ''date'')"
    by (simp add: stored_monday_def param_columns_def column_def get_cell_def)
  show ?thesis
    using h1 h2 h3 h4
      scrape_and_update_idempotent [OF h1 h2 h3 h4, of "{||}" monday_10am two_params]
    by (simp add: Let_def world_with_monday_def)
qed

text \<open>
  Claim C4. After every run of \<open>scrape_and_update\<close> that returns true, the stored
  frame has no two identical rows and its rows are in ascending order of their
  \<open>date\<close> cell (rows whose date is missing come last).
\<close>

theorem stored_distinct_sorted:
  assumes "fst (scrape_and_update H now src date w) = Inr True"
  shows "\<exists>f. feather (snd (scrape_and_update H now src date w)) = Table f \<and>
           distinct (rows f) \<and>
           sorted_wrt (\<lambda>r s. date_le (date_cell f r) (date_cell f s)) (rows f)"
  using assms by (rule stored_after_success)

theorem stored_distinct_sorted_witness:
  "fst (scrape_and_update {||} monday_10am two_params monday empty_world) = Inr True \<and>
   (\<exists>f. feather (snd (scrape_and_update {||} monday_10am two_params monday empty_world))
           = Table f \<and>
         distinct (rows f) \<and>
         sorted_wrt (\<lambda>r s. date_le (date_cell f r) (date_cell f s)) (rows f))"
proof -
  have h: "fst (scrape_and_update {||} monday_10am two_params monday empty_world) = Inr True"
    by (simp add: scrape_and_update_def validate_monday load_existing_def already_present_def
        fetch_and_merge_def scrape_def merge_and_store_def frame_eval empty_world_def
        two_params_def)
  show ?thesis
    using h stored_distinct_sorted [OF h] by simp
qed

text \<open>
  Claim C8, as amended. If the scraper raises during a run of \<open>scrape_and_update\<close>,
  the error is logged, the run raises the same error, and the store is not written in
  that run. The converse is not claimed: a run also raises, with the fetch succeeding
  or not reached, when the stored file cannot be read, when the merged frame cannot be
  sorted by \<open>date\<close>, and when it cannot be written.
\<close>

theorem fetch_error_is_raised:
  assumes "fetch_reached H now date w" and "src date = Inl e"
  shows "fst (scrape_and_update H now src date w) = Inl e \<and>
         (ERROR, ScrapeError e) \<in> set (log (snd (scrape_and_update H now src date w))) \<and>
         feather (snd (scrape_and_update H now src date w)) = feather w \<and>
         writes (snd (scrape_and_update H now src date w)) = writes w"
  using fetch_error_propagates [where src = src, OF assms] by simp

theorem fetch_error_is_raised_witness:
  "fetch_reached {||} monday_10am friday world_with_monday \<and>
   failing_source friday = Inl RequestException \<and>
   fst (scrape_and_update {||} monday_10am failing_source friday world_with_monday)
     = Inl RequestException \<and>
   (ERROR, ScrapeError RequestException)
     \<in> set (log (snd (scrape_and_update {||} monday_10am failing_source friday
         world_with_monday))) \<and>
   feather (snd (scrape_and_update {||} monday_10am failing_source friday world_with_monday))
     = Table stored_monday \<and>
   writes (snd (scrape_and_update {||} monday_10am failing_source friday world_with_monday)) = 1"
proof -
  have "\<not> already_present (existing_frame world_with_monday) friday"
    by (simp add: existing_frame_def already_present_def world_with_monday_def
        stored_monday_def df_empty_def column_def get_cell_def param_columns_def
        example_defs combine_def DAY_NANOS_def)
  then have h1: "fetch_reached {||} monday_10am friday world_with_monday"
    by (simp add: fetch_reached_def validate_friday world_with_monday_def)
  have h2: "failing_source friday = Inl RequestException"
    by (simp add: failing_source_def)
  show ?thesis
    using h1 h2 fetch_error_is_raised [where src = failing_source, OF h1 h2]
    by (simp add: world_with_monday_def)
qed

text \<open>
  The claim as it was stated (a run raises if and only if the fetch raises) fails: with
  no stored file and a fetch that returns no records, the fetch does not raise and the
  run does.
\<close>

theorem raises_without_fetch_error:
  "no_params friday = Inr [] \<and>
   fst (scrape_and_update {||} monday_10am no_params friday empty_world) =
     Inl (KeyError ''date'')"
  by (simp add: scrape_and_update_def validate_friday load_existing_def already_present_def
      fetch_and_merge_def scrape_def merge_and_store_def frame_eval empty_world_def
      no_params_def)

text \<open>
  Claim C10. If the date passes validation, no dataset file exists, and the fetch
  returns no parameter records, then \<open>scrape_and_update\<close> raises \<^verbatim>\<open>KeyError\<close> for the
  column \<open>date\<close> at the sort of the merged frame, which has no columns; no table is
  stored and nothing is written.
\<close>

theorem empty_fetch_on_empty_store:
  assumes "fst (validate_date H now date w) = Inr True" and "feather w = NoFile"
    and "src date = Inr []"
  shows "fst (scrape_and_update H now src date w) = Inl (KeyError ''date'') \<and>
         feather (snd (scrape_and_update H now src date w)) = NoFile \<and>
         writes (snd (scrape_and_update H now src date w)) = writes w"
  using assms by (rule empty_fetch_empty_store)

theorem empty_fetch_on_empty_store_witness:
  "fst (validate_date {||} monday_10am monday empty_world) = Inr True \<and>
   feather empty_world = NoFile \<and> no_params monday = Inr [] \<and>
   fst (scrape_and_update {||} monday_10am no_params monday empty_world) =
     Inl (KeyError ''date'') \<and>
   feather (snd (scrape_and_update {||} monday_10am no_params monday empty_world)) = NoFile \<and>
   writes (snd (scrape_and_update {||} monday_10am no_params monday empty_world)) = 0"
proof -
  have h1: "fst (validate_date {||} monday_10am monday empty_world) = Inr True"
    by (simp add: validate_monday)
  have h2: "feather empty_world = NoFile"
    by (simp add: empty_world_def)
  have h3: "no_params monday = Inr []"
    by (simp add: no_params_def)
  show ?thesis
    using h1 h2 h3 empty_fetch_on_empty_store [where src = no_params, OF h1 h2 h3]
    by (simp add: empty_world_def)
qed

end
